theory Spec2Isabelle
  imports Main
begin

section \<open>Python classes and values, as \<open>pyxides.typing\<close> observes them\<close>

text \<open>
  The module inspects class objects: their \<open>__name__\<close>, their \<open>__bases__\<close>, their
  metaclass, the \<open>_allowed_types\<close> attribute and whether they are containers in the
  sense of \<open>collections.abc.Container\<close>; the interpreter finds the methods of an
  instance through the classes. A class object is modelled by these parts. \<open>cid\<close> is
  the identity of the object: two calls of \<open>OfTypes(int)\<close> return two classes that differ
  in nothing else. \<open>own_allowed\<close> is the entry \<open>_allowed_types\<close> of the class's own
  \<open>__dict__\<close> (when it has one), \<open>own_names\<close> are the names of the own \<open>__dict__\<close>; for the
  classes of the standard library only the names that the model looks up are listed
  (\<open>__contains__\<close>, \<open>__init__\<close>, \<open>append\<close>, \<open>extend\<close>).
\<close>

datatype factory = OfTypes | ListOf

datatype metaclass = MType | MABCMeta | MFactory factory

datatype pyclass =
  PyClass (cid: nat) (cname: string) (cmodule: string) (cmeta: metaclass)
          (cbases: "pyclass list") (own_allowed: "pyclass list option")
          (own_names: "string list")

datatype pyval =
    VNone
  | VBool bool
  | VInt int
  | VStr string
  | VTuple "pyval list"
  | VDict "(string \<times> pyval) list"
  | VCls pyclass
  | VObj pyclass nat

datatype exc_class =
  TypeError | ValueError | IndexError | KeyError | UnboundLocalError | AttributeError

text \<open>
  One constructor for each \<open>raise\<close> of the module, carrying the message, and one for
  the exceptions the interpreter raises by itself (an index out of range, a failed
  unpacking, an unbound local, a missing key).
\<close>

datatype pyerror =
    ConfigValueError string
  | ConfigTypeError string
  | CompositionTypeError string
  | UsageTypeError string
  | ItemTypeError string
  | InterpreterError exc_class string

fun exc_class_of :: "pyerror \<Rightarrow> exc_class" where
  "exc_class_of (ConfigValueError m) = ValueError"
| "exc_class_of (ConfigTypeError m) = TypeError"
| "exc_class_of (CompositionTypeError m) = TypeError"
| "exc_class_of (UsageTypeError m) = TypeError"
| "exc_class_of (ItemTypeError m) = TypeError"
| "exc_class_of (InterpreterError c m) = c"

subsection \<open>The classes of the standard library that the module meets\<close>

definition object_cls :: pyclass where
  "object_cls =
     PyClass 0 ''object'' ''builtins'' MType [] None
       [''__init__'']"

definition type_cls :: pyclass where
  "type_cls =
     PyClass 1 ''type'' ''builtins'' MType [object_cls] None
       [''__init__'']"

definition int_cls :: pyclass where
  "int_cls =
     PyClass 2 ''int'' ''builtins'' MType [object_cls] None
       []"

definition bool_cls :: pyclass where
  "bool_cls =
     PyClass 3 ''bool'' ''builtins'' MType [int_cls] None
       []"

definition float_cls :: pyclass where
  "float_cls =
     PyClass 4 ''float'' ''builtins'' MType [object_cls] None
       []"

definition str_cls :: pyclass where
  "str_cls =
     PyClass 5 ''str'' ''builtins'' MType [object_cls] None
       [''__contains__'']"

definition tuple_cls :: pyclass where
  "tuple_cls =
     PyClass 6 ''tuple'' ''builtins'' MType [object_cls] None
       [''__contains__'']"

definition dict_cls :: pyclass where
  "dict_cls =
     PyClass 7 ''dict'' ''builtins'' MType [object_cls] None
       [''__init__'', ''__contains__'']"

definition NoneType_cls :: pyclass where
  "NoneType_cls =
     PyClass 8 ''NoneType'' ''builtins'' MType [object_cls] None
       []"

definition ABCMeta_cls :: pyclass where
  "ABCMeta_cls =
     PyClass 9 ''ABCMeta'' ''abc'' MType [type_cls] None
       []"

definition OfTypes_cls :: pyclass where
  "OfTypes_cls =
     PyClass 10 ''OfTypes'' ''pyxides.typing'' MType [ABCMeta_cls] None
       []"

definition ListOf_cls :: pyclass where
  "ListOf_cls =
     PyClass 11 ''ListOf'' ''pyxides.typing'' MType [OfTypes_cls] None
       []"

definition Container_cls :: pyclass where
  "Container_cls =
     PyClass 12 ''Container'' ''collections.abc'' MABCMeta [object_cls] None
       [''__contains__'']"

definition Sized_cls :: pyclass where
  "Sized_cls =
     PyClass 13 ''Sized'' ''collections.abc'' MABCMeta [object_cls] None
       []"

definition Iterable_cls :: pyclass where
  "Iterable_cls =
     PyClass 14 ''Iterable'' ''collections.abc'' MABCMeta [object_cls] None
       []"

definition Collection_cls :: pyclass where
  "Collection_cls =
     PyClass 15 ''Collection'' ''collections.abc'' MABCMeta [Sized_cls, Iterable_cls, Container_cls] None
       []"

definition Reversible_cls :: pyclass where
  "Reversible_cls =
     PyClass 16 ''Reversible'' ''collections.abc'' MABCMeta [Iterable_cls] None
       []"

definition Sequence_cls :: pyclass where
  "Sequence_cls =
     PyClass 17 ''Sequence'' ''collections.abc'' MABCMeta [Reversible_cls, Collection_cls] None
       [''__contains__'']"

definition MutableSequence_cls :: pyclass where
  "MutableSequence_cls =
     PyClass 18 ''MutableSequence'' ''collections.abc'' MABCMeta [Sequence_cls] None
       [''append'', ''extend'']"

definition UserList :: pyclass where
  "UserList =
     PyClass 19 ''UserList'' ''collections'' MABCMeta [MutableSequence_cls] None
       [''__init__'', ''__contains__'', ''append'', ''extend'']"

text \<open>
  The mixin of the module: \<open>_allowed_types = (object, )\<close> is its placeholder; its body
  defines \<open>_actions\<close>, \<open>emit\<close>, \<open>type_checking\<close>, \<open>__init__\<close>, \<open>checks_type\<close>,
  \<open>check_type\<close>, \<open>append\<close> and \<open>extend\<close>.
\<close>

definition TypeEnforcer :: pyclass where
  "TypeEnforcer =
     PyClass 20 ''_TypeEnforcer'' ''pyxides.typing'' MType [object_cls] (Some [object_cls])
       [''_allowed_types'', ''_actions'', ''emit'', ''type_checking'', ''__init__'',
        ''checks_type'', ''check_type'', ''append'', ''extend'']"

definition metaclass_obj :: "metaclass \<Rightarrow> pyclass" where
  "metaclass_obj m = (case m of
       MType \<Rightarrow> type_cls
     | MABCMeta \<Rightarrow> ABCMeta_cls
     | MFactory OfTypes \<Rightarrow> OfTypes_cls
     | MFactory ListOf \<Rightarrow> ListOf_cls)"

subsection \<open>\<open>type\<close>, \<open>issubclass\<close>, \<open>isinstance\<close>\<close>

fun type_of :: "pyval \<Rightarrow> pyclass" where
  "type_of VNone = NoneType_cls"
| "type_of (VBool b) = bool_cls"
| "type_of (VInt n) = int_cls"
| "type_of (VStr s) = str_cls"
| "type_of (VTuple vs) = tuple_cls"
| "type_of (VDict kvs) = dict_cls"
| "type_of (VCls c) = metaclass_obj (cmeta c)"
| "type_of (VObj c n) = c"

text \<open>Every class reachable through \<open>__bases__\<close>, the class itself first.\<close>

fun ancestors :: "pyclass \<Rightarrow> pyclass list" where
  "ancestors (PyClass i n mo me bs al ns) =
     PyClass i n mo me bs al ns # concat (map ancestors bs)"

text \<open>
  \<open>issubclass(c, abc.Container)\<close> is decided by the hook of \<open>Container\<close>: some class of
  the method resolution order of \<open>c\<close> defines \<open>__contains__\<close>.
\<close>

definition is_container :: "pyclass \<Rightarrow> bool" where
  "is_container c = list_ex (\<lambda>k. ''__contains__'' \<in> set (own_names k)) (ancestors c)"

text \<open>
  \<open>issubclass(c, d)\<close>: nominal subclassing, and the hook when \<open>d\<close> is \<open>Container\<close>.
  The hooks of the other abstract base classes (\<open>Sized\<close>, \<open>Iterable\<close>, ...) and classes
  registered with an abstract base class by \<open>register\<close> are not modelled: the allowed
  types and the bases of the model are classes that subclass by inheritance.
\<close>

definition issubclass :: "pyclass \<Rightarrow> pyclass \<Rightarrow> bool" where
  "issubclass c d = (if d = Container_cls then is_container c else d \<in> set (ancestors c))"

text \<open>\<open>isinstance(v, (t1, ..., tn))\<close> with a tuple of classes.\<close>

definition isinstance :: "pyval \<Rightarrow> pyclass list \<Rightarrow> bool" where
  "isinstance v ts = list_ex (issubclass (type_of v)) ts"

text \<open>\<open>isinstance(bb, cls)\<close> for a class object \<open>bb\<close> and a factory \<open>cls\<close> (a metaclass).\<close>

definition made_by :: "factory \<Rightarrow> pyclass \<Rightarrow> bool" where
  "made_by cls bb = (case cmeta bb of
       MFactory f \<Rightarrow> cls = OfTypes \<or> f = ListOf
     | _ \<Rightarrow> False)"

subsection \<open>Method resolution order and attribute lookup\<close>

text \<open>
  The C3 merge of the interpreter: the first head that is in no tail is taken and
  removed from every sequence; there is no linearisation when no head qualifies.
\<close>

function c3_merge :: "'a list list \<Rightarrow> 'a list option" where
  "c3_merge seqs =
     (let ss = filter (\<lambda>s. s \<noteq> []) seqs in
      if ss = [] then Some []
      else (case find (\<lambda>h. list_all (\<lambda>s. h \<notin> set (tl s)) ss) (map hd ss) of
              None \<Rightarrow> None
            | Some h \<Rightarrow>
                map_option ((#) h)
                  (c3_merge (map (\<lambda>s. if hd s = h then tl s else s) ss))))"
  by pat_completeness auto

termination
proof (relation "measure (\<lambda>seqs. sum_list (map length seqs))")
  show "wf (measure (\<lambda>seqs::'a list list. sum_list (map length seqs)))"
    by simp
next
  fix seqs ss :: "'a list list" and h :: 'a
  assume ss: "ss = filter (\<lambda>s. s \<noteq> []) seqs"
    and fnd: "find (\<lambda>h. list_all (\<lambda>s. h \<notin> set (tl s)) ss) (map hd ss) = Some h"
  define f where "f = (\<lambda>s::'a list. if hd s = h then tl s else s)"
  have le: "length (f s) \<le> length s" for s
    by (simp add: f_def)
  have mem: "find P xs = Some x \<Longrightarrow> x \<in> set xs" for P and xs :: "'a list" and x
    by (induction xs) (auto split: if_splits)
  from fnd have "h \<in> set (map hd ss)"
    by (rule mem)
  then obtain s0 where s0: "s0 \<in> set ss" "hd s0 = h"
    by auto
  from s0(1) have "s0 \<noteq> []"
    unfolding ss by simp
  with s0(2) have lt: "length (f s0) < length s0"
    by (simp add: f_def)
  have weak: "sum_list (map length (map f ys)) \<le> sum_list (map length ys)" for ys
  proof (induction ys)
    case Nil
    show ?case by simp
  next
    case (Cons y ys)
    with le [of y] show ?case by simp
  qed
  have strict: "s0 \<in> set xs \<Longrightarrow> sum_list (map length (map f xs)) < sum_list (map length xs)"
    for xs
  proof (induction xs)
    case Nil
    then show ?case by simp
  next
    case (Cons x xs)
    show ?case
    proof (cases "x = s0")
      case True
      with lt weak [of xs] show ?thesis by simp
    next
      case False
      with Cons have "sum_list (map length (map f xs)) < sum_list (map length xs)"
        by simp
      with le [of x] show ?thesis by simp
    qed
  qed
  have "sum_list (map length (map f ss)) < sum_list (map length ss)"
    using s0(1) by (rule strict)
  also have "\<dots> \<le> sum_list (map length seqs)"
    unfolding ss by (induction seqs) simp_all
  finally show "(map (\<lambda>s. if hd s = h then tl s else s) ss, seqs)
      \<in> measure (\<lambda>seqs. sum_list (map length seqs))"
    unfolding f_def by simp
qed

text \<open>
  \<open>__mro__\<close>: the class, then the merge of the linearisations of its bases and of the
  list of bases itself. \<open>None\<close> when the bases have no consistent linearisation (the
  interpreter refuses to build such a class).
\<close>

fun mro :: "pyclass \<Rightarrow> pyclass list option" where
  "mro (PyClass i n mo me bs al ns) =
     (let ms = map mro bs in
      if list_ex (\<lambda>m. m = None) ms then None
      else map_option ((#) (PyClass i n mo me bs al ns)) (c3_merge (map the ms @ [bs])))"

text \<open>
  The class attribute \<open>c._allowed_types\<close>: the entry of the first class of the method
  resolution order that has one; \<open>None\<close> stands for \<open>AttributeError\<close>.
\<close>

definition lookup_allowed :: "pyclass \<Rightarrow> pyclass list option" where
  "lookup_allowed c = (case mro c of
       None \<Rightarrow> None
     | Some m \<Rightarrow> (case find (\<lambda>k. own_allowed k \<noteq> None) m of
                   None \<Rightarrow> None
                 | Some k \<Rightarrow> own_allowed k))"

section \<open>Formatting\<close>

definition squote :: char where
  "squote = CHR 0x27"

definition dquote :: char where
  "dquote = CHR 0x22"

text \<open>\<open>repr\<close> of a string without quotes or escapes in it, as class names are.\<close>

definition repr_str :: "string \<Rightarrow> string" where
  "repr_str s = squote # s @ [squote]"

text \<open>\<open>repr\<close> and \<open>str\<close> of a class: \<open><class 'module.name'>\<close>, the module left out for builtins.\<close>

definition class_repr :: "pyclass \<Rightarrow> string" where
  "class_repr c =
     ''<class '' @ [squote] @
     (if cmodule c = ''builtins'' then cname c else cmodule c @ ''.'' @ cname c) @
     [squote] @ ''>''"

fun join :: "string \<Rightarrow> string list \<Rightarrow> string" where
  "join sep [] = []"
| "join sep [x] = x"
| "join sep (x # y # ys) = x @ sep @ join sep (y # ys)"

fun str_nat :: "nat \<Rightarrow> string" where
  "str_nat n =
     (if n < 10 then [char_of (48 + n)]
      else str_nat (n div 10) @ [char_of (48 + n mod 10)])"

definition str_int :: "int \<Rightarrow> string" where
  "str_int k = (if k < 0 then ''-'' @ str_nat (nat (- k)) else str_nat (nat k))"

definition factory_name :: "factory \<Rightarrow> string" where
  "factory_name cls = (case cls of OfTypes \<Rightarrow> ''OfTypes'' | ListOf \<Rightarrow> ''ListOf'')"

text \<open>
  The text of a string value. Instances of subclasses of \<open>str\<close> carry no text in this
  model.
\<close>

definition str_text :: "pyval \<Rightarrow> string" where
  "str_text v = (case v of VStr s \<Rightarrow> s | _ \<Rightarrow> [])"

section \<open>The factory: \<open>OfTypes\<close> and \<open>ListOf\<close>\<close>

subsection \<open>\<open>_get_allowed_types\<close>\<close>

text \<open>
  The scan keeps \<open>idx_enf\<close>, \<open>idx_cnt\<close>, \<open>requested_allowed_types\<close> (a local that is
  unbound until a base derives from \<open>_TypeEnforcer\<close>) and \<open>previous_allowed_types\<close>.
\<close>

type_synonym scan = "nat option \<times> nat option \<times> pyclass list option \<times> pyclass list"

definition attribute_error :: pyerror where
  "attribute_error = InterpreterError AttributeError ''_allowed_types''"

text \<open>The inner loop \<open>for bb in base.__bases__\<close>.\<close>

fun extend_previous :: "factory \<Rightarrow> pyclass list \<Rightarrow> pyclass list \<Rightarrow> pyerror + pyclass list" where
  "extend_previous cls [] prev = Inr prev"
| "extend_previous cls (bb # bbs) prev =
     (if made_by cls bb then
        (case lookup_allowed bb of
           None \<Rightarrow> Inl attribute_error
         | Some ts \<Rightarrow> extend_previous cls bbs (prev @ ts))
      else extend_previous cls bbs prev)"

text \<open>The body of the loop \<open>for i, base in enumerate(bases)\<close>.\<close>

definition scan_base :: "factory \<Rightarrow> nat \<Rightarrow> pyclass \<Rightarrow> scan \<Rightarrow> pyerror + scan" where
  "scan_base cls i base st =
     (case st of (idx_enf, idx_cnt, requested, prev) \<Rightarrow>
        let idx_cnt' = (if issubclass base Container_cls then Some i else idx_cnt) in
        (case (if issubclass base TypeEnforcer then
                 (case lookup_allowed base of
                    None \<Rightarrow> Inl attribute_error
                  | Some ts \<Rightarrow> Inr (Some i, Some ts))
               else Inr (idx_enf, requested)) of
           Inl e \<Rightarrow> Inl e
         | Inr (idx_enf', requested') \<Rightarrow>
             (case extend_previous cls (cbases base) prev of
                Inl e \<Rightarrow> Inl e
              | Inr prev' \<Rightarrow> Inr (idx_enf', idx_cnt', requested', prev'))))"

fun scan_bases :: "factory \<Rightarrow> nat \<Rightarrow> pyclass list \<Rightarrow> scan \<Rightarrow> pyerror + scan" where
  "scan_bases cls i [] st = Inr st"
| "scan_bases cls i (base # bases) st =
     (case scan_base cls i base st of
        Inl e \<Rightarrow> Inl e
      | Inr st' \<Rightarrow> scan_bases cls (Suc i) bases st')"

definition get_allowed_types ::
  "factory \<Rightarrow> pyclass list \<Rightarrow>
   pyerror + (nat option \<times> nat option \<times> pyclass list \<times> pyclass list)" where
  "get_allowed_types cls bases =
     (case scan_bases cls 0 bases (None, None, None, []) of
        Inl e \<Rightarrow> Inl e
      | Inr (idx_enf, idx_cnt, requested, prev) \<Rightarrow>
          (case requested of
             None \<Rightarrow> Inl (InterpreterError UnboundLocalError ''requested_allowed_types'')
           | Some req \<Rightarrow> Inr (idx_enf, idx_cnt, req, prev)))"

subsection \<open>\<open>_check_allowed_types\<close>\<close>

definition incompatible_message :: "pyclass \<Rightarrow> pyclass \<Rightarrow> string \<Rightarrow> string" where
  "incompatible_message new allowed name =
     ''Multiple incompatible type restrictions ('' @ class_repr new @ '', '' @
     class_repr allowed @ '') requested in different bases of container class '' @
     name @ ''.''"

text \<open>
  The loop \<open>for new in requested_allowed_types\<close>. Its body ends in \<open>break\<close> or in
  \<open>raise\<close>, so only the first requested type is ever looked at.
\<close>

fun narrows :: "string \<Rightarrow> pyclass \<Rightarrow> pyclass list \<Rightarrow> pyerror + unit" where
  "narrows name allowed [] = Inr ()"
| "narrows name allowed (new # rest) =
     (if issubclass new allowed then Inr ()
      else Inl (CompositionTypeError (incompatible_message new allowed name)))"

text \<open>The loop \<open>for allowed in previous_allowed_types\<close>.\<close>

fun check_each :: "string \<Rightarrow> pyclass list \<Rightarrow> pyclass list \<Rightarrow> pyerror + unit" where
  "check_each name requested [] = Inr ()"
| "check_each name requested (allowed # rest) =
     (case narrows name allowed requested of
        Inl e \<Rightarrow> Inl e
      | Inr u \<Rightarrow> check_each name requested rest)"

definition check_allowed_types ::
  "string \<Rightarrow> pyclass list \<Rightarrow> pyclass list \<Rightarrow> pyerror + unit" where
  "check_allowed_types name requested previous =
     (if previous \<noteq> [] then check_each name requested previous else Inr ())"

subsection \<open>\<open>make_bases\<close>\<close>

definition usage_message :: "factory \<Rightarrow> pyclass list \<Rightarrow> string" where
  "usage_message cls requested =
     (let req = join '', '' (map cname requested) in
      ''Using '' @ [dquote] @ factory_name cls @ ''('' @ req @ '')'' @ [dquote] @
      '' without preceding container type in inheritence diagram. Did you mean to use '' @
      [dquote] @ ''ListOf('' @ req @ '')'' @ [dquote] @ ''?'')"

text \<open>The slices \<open>bases[:i]\<close> and \<open>bases[i:]\<close>, where \<open>i\<close> may be \<open>None\<close>.\<close>

definition slice_to :: "nat option \<Rightarrow> 'a list \<Rightarrow> 'a list" where
  "slice_to i xs = (case i of None \<Rightarrow> xs | Some k \<Rightarrow> take k xs)"

definition slice_from :: "nat option \<Rightarrow> 'a list \<Rightarrow> 'a list" where
  "slice_from i xs = (case i of None \<Rightarrow> xs | Some k \<Rightarrow> drop k xs)"

text \<open>\<open>_bases.insert(idx_cnt, _bases.pop(idx_enf))\<close> on \<open>_bases = list(bases)\<close>.\<close>

definition pop_insert :: "nat \<Rightarrow> nat \<Rightarrow> 'a list \<Rightarrow> pyerror + 'a list" where
  "pop_insert idx_cnt idx_enf bs =
     (if idx_enf < length bs then
        (let x = bs ! idx_enf; rest = take idx_enf bs @ drop (Suc idx_enf) bs
         in Inr (take idx_cnt rest @ [x] @ drop idx_cnt rest))
      else Inl (InterpreterError IndexError ''pop index out of range''))"

definition make_bases :: "factory \<Rightarrow> string \<Rightarrow> pyclass list \<Rightarrow> pyerror + pyclass list" where
  "make_bases cls name bases =
     (case get_allowed_types cls bases of
        Inl e \<Rightarrow> Inl e
      | Inr (idx_enf, idx_cnt, requested, currently_allowed) \<Rightarrow>
          (case check_allowed_types name requested currently_allowed of
             Inl e \<Rightarrow> Inl e
           | Inr u \<Rightarrow>
               (case (if idx_cnt = None then
                        (if cls = ListOf then
                           Inr (slice_to idx_enf bases @ [UserList] @ slice_from idx_enf bases)
                         else Inl (UsageTypeError (usage_message cls requested)))
                      else Inr bases) of
                  Inl e \<Rightarrow> Inl e
                | Inr bases' \<Rightarrow>
                    (case (idx_enf, idx_cnt) of
                       (Some ie, Some ic) \<Rightarrow>
                         (if ic < ie then pop_insert ic ie bases' else Inr bases')
                     | _ \<Rightarrow> Inr bases'))))"

subsection \<open>\<open>OfTypes.__new__\<close>\<close>

text \<open>
  The call \<open>super().__new__(cls, name, bases, attrs)\<close> that ends both paths of
  \<open>__new__\<close>: the class construction of \<open>ABCMeta\<close>, with its arguments. The keyword
  arguments \<open>**kws\<close> are handed through unchanged and are left out.
\<close>

datatype creation =
  TypeNew (new_meta: factory) (new_name: pyval) (new_bases: "pyclass list") (new_attrs: pyval)

definition no_arguments_message :: "factory \<Rightarrow> string" where
  "no_arguments_message cls =
     repr_str (factory_name cls) @
     ''s constructor requires at least one argument: the allowed type(s).''"

definition not_classes_message :: "factory \<Rightarrow> string" where
  "not_classes_message cls =
     ''Arguments to '' @ repr_str (factory_name cls) @ '' constructor should be classes.''"

text \<open>
  What \<open>enumerate(bases)\<close> and \<open>issubclass(base, abc.Container)\<close> make of the second
  argument of the internal call: a tuple of classes is scanned; any other element, and
  any value that cannot be iterated, is a \<open>TypeError\<close> of the interpreter.
\<close>

definition the_class :: "pyval \<Rightarrow> pyclass option" where
  "the_class v = (case v of VCls c \<Rightarrow> Some c | _ \<Rightarrow> None)"

definition not_a_class :: pyerror where
  "not_a_class = InterpreterError TypeError ''issubclass() arg 1 must be a class''"

definition not_iterable :: pyerror where
  "not_iterable = InterpreterError TypeError ''object is not iterable''"

definition classes_of_bases :: "pyval \<Rightarrow> pyerror + pyclass list" where
  "classes_of_bases v = (case v of
       VTuple vs \<Rightarrow>
         (if list_all (\<lambda>x. the_class x \<noteq> None) vs then Inr (map (\<lambda>x. the (the_class x)) vs)
          else Inl not_a_class)
     | VStr s \<Rightarrow> (if s = [] then Inr [] else Inl not_a_class)
     | VDict kvs \<Rightarrow> (if kvs = [] then Inr [] else Inl not_a_class)
     | _ \<Rightarrow> Inl not_iterable)"

definition unpack_error :: "nat \<Rightarrow> pyerror" where
  "unpack_error n =
     InterpreterError ValueError
       (if n < 3 then ''not enough values to unpack (expected 3, got '' @ str_nat n @ '')''
        else ''too many values to unpack (expected 3)'')"

definition OfTypes_new :: "factory \<Rightarrow> pyval list \<Rightarrow> pyerror + creation" where
  "OfTypes_new cls args =
     (case args of
        [] \<Rightarrow> Inl (InterpreterError IndexError ''tuple index out of range'')
      | a0 # rest \<Rightarrow>
          if isinstance a0 [str_cls] then
            (case args of
               [name, bases, attrs] \<Rightarrow>
                 (case classes_of_bases bases of
                    Inl e \<Rightarrow> Inl e
                  | Inr bs \<Rightarrow>
                      (case make_bases cls (str_text name) bs of
                         Inl e \<Rightarrow> Inl e
                       | Inr bs' \<Rightarrow> Inr (TypeNew cls name bs' attrs)))
             | _ \<Rightarrow> Inl (unpack_error (length args)))
          else if length args = 0 then Inl (ConfigValueError (no_arguments_message cls))
          else if list_ex (\<lambda>kls. \<not> isinstance kls [type_cls]) args
            then Inl (ConfigTypeError (not_classes_message cls))
          else Inr (TypeNew cls (VStr ''ListOf'') [TypeEnforcer]
                      (VDict [(''_allowed_types'', VTuple args)])))"

text \<open>
  The class construction of \<open>ABCMeta\<close> and \<open>type\<close>, for a name that is a string and a
  namespace that is a dictionary. The new class object has the identity \<open>addr\<close>, the
  factory as its metaclass and the keys of the namespace as its own names; \<open>__module__\<close>
  is read from the namespace (a class statement puts it there; a class made inside
  \<open>ABCMeta.__new__\<close> gets \<open>abc\<close>). The interpreter refuses bases that have no consistent
  method resolution order. Not modelled: that \<open>type.__new__\<close> hands the call over to a
  more derived metaclass among the bases, and the other refusals of the interpreter
  (bases whose instance lay-outs conflict, such as \<open>int\<close> and \<open>float\<close>; a base that is no
  acceptable base type, such as \<open>bool\<close>; special names of the namespace, such as
  \<open>__slots__\<close>). The classes built below have bases and namespaces without these.
\<close>

definition allowed_of_attrs :: "(string \<times> pyval) list \<Rightarrow> pyclass list option" where
  "allowed_of_attrs kvs = (case map_of kvs ''_allowed_types'' of
       Some (VTuple vs) \<Rightarrow>
         (if list_all (\<lambda>x. the_class x \<noteq> None) vs then Some (map (\<lambda>x. the (the_class x)) vs)
          else None)
     | _ \<Rightarrow> None)"

definition module_of_attrs :: "(string \<times> pyval) list \<Rightarrow> string" where
  "module_of_attrs kvs = (case map_of kvs ''__module__'' of
       Some (VStr m) \<Rightarrow> m
     | _ \<Rightarrow> ''abc'')"

definition new_class ::
  "nat \<Rightarrow> factory \<Rightarrow> string \<Rightarrow> pyclass list \<Rightarrow> (string \<times> pyval) list \<Rightarrow> pyclass" where
  "new_class addr cls n bs kvs =
     PyClass addr n (module_of_attrs kvs) (MFactory cls) (if bs = [] then [object_cls] else bs)
       (allowed_of_attrs kvs) (map fst kvs)"

definition mro_error :: pyerror where
  "mro_error =
     InterpreterError TypeError ''Cannot create a consistent method resolution order (MRO)''"

definition created_class :: "nat \<Rightarrow> creation \<Rightarrow> pyerror + pyclass" where
  "created_class addr cr = (case cr of
       TypeNew cls (VStr n) bs (VDict kvs) \<Rightarrow>
         (if mro (new_class addr cls n bs kvs) = None then Inl mro_error
          else Inr (new_class addr cls n bs kvs))
     | _ \<Rightarrow> Inl (InterpreterError TypeError ''type.__new__() argument''))"

text \<open>
  A call of the factory, from the evaluation of its arguments to the new class object:
  \<open>OfTypes(int)\<close> is \<open>factory_call addr OfTypes [VCls int_cls]\<close>, and a class statement
  \<open>class C(B1, B2): ...\<close> whose metaclass is the factory \<open>cls\<close> is
  \<open>factory_call addr cls [VStr ''C'', VTuple [VCls B1, VCls B2], VDict namespace]\<close>.
\<close>

definition factory_call :: "nat \<Rightarrow> factory \<Rightarrow> pyval list \<Rightarrow> pyerror + pyclass" where
  "factory_call addr cls args =
     (case OfTypes_new cls args of
        Inl e \<Rightarrow> Inl e
      | Inr cr \<Rightarrow> created_class addr cr)"

section \<open>The mixin: \<open>_TypeEnforcer\<close>\<close>

text \<open>
  Modelled from the spec: \<open>echo0\<close> and \<open>raises\<close> of \<open>recipes.functionals\<close> are not in the
  sources. The three entries of \<open>_actions\<close> are \<open>echo0\<close>, the action that drops the event;
  \<open>warnings.warn\<close>, which emits the message and returns (the filters of the \<open>warnings\<close>
  module decide what is displayed; they are not modelled); and \<open>bork(TypeError)\<close>, which
  raises \<open>TypeError\<close> with the message it is given.
\<close>

datatype action = Echo0 | Warn | Raise

definition actions :: "int \<Rightarrow> action option" where
  "actions k = (if k = - 1 then Some Echo0
                else if k = 0 then Some Warn
                else if k = 1 then Some Raise
                else None)"

text \<open>
  A container instance with what its methods read and write: the name of its class,
  \<open>self._allowed_types\<close>, the class attribute \<open>emit\<close>, the list \<open>self.data\<close> of
  \<open>UserList\<close>, and the messages handed to \<open>warnings.warn\<close> so far.
\<close>

record enforcer =
  class_name :: string
  allowed_types :: "pyclass list"
  emit :: action
  data :: "pyval list"
  warned :: "string list"

datatype outcome = Returns enforcer | Raises pyerror enforcer

subsection \<open>\<open>type_checking\<close>\<close>

definition is_space :: "char \<Rightarrow> bool" where
  "is_space c = (c \<in> set [CHR 0x20, CHR 0x09, CHR 0x0A, CHR 0x0B, CHR 0x0C, CHR 0x0D])"

definition is_digit :: "char \<Rightarrow> bool" where
  "is_digit c = (48 \<le> (of_char c :: nat) \<and> (of_char c :: nat) \<le> 57)"

definition strip :: "string \<Rightarrow> string" where
  "strip s = rev (dropWhile is_space (rev (dropWhile is_space s)))"

text \<open>Decimal digits, single underscores allowed between them.\<close>

fun parse_digits :: "bool \<Rightarrow> nat \<Rightarrow> string \<Rightarrow> nat option" where
  "parse_digits d acc [] = (if d then Some acc else None)"
| "parse_digits d acc (c # cs) =
     (if is_digit c then parse_digits True (acc * 10 + (of_char c - 48)) cs
      else if c = CHR ''_'' \<and> d then parse_digits False acc cs
      else None)"

definition int_of_str :: "string \<Rightarrow> int option" where
  "int_of_str s =
     (case strip s of
        [] \<Rightarrow> None
      | c # cs \<Rightarrow>
          if c = CHR ''-'' then map_option (\<lambda>n. - int n) (parse_digits False 0 cs)
          else if c = CHR ''+'' then map_option int (parse_digits False 0 cs)
          else map_option int (parse_digits False 0 (c # cs)))"

text \<open>
  The builtin \<open>int\<close> on the modelled values (ASCII literals in base ten). Objects of
  user classes are taken to have no \<open>__int__\<close>.
\<close>

definition py_int :: "pyval \<Rightarrow> pyerror + int" where
  "py_int v = (case v of
       VInt n \<Rightarrow> Inr n
     | VBool b \<Rightarrow> Inr (if b then 1 else 0)
     | VStr s \<Rightarrow>
         (case int_of_str s of
            None \<Rightarrow>
              Inl (InterpreterError ValueError
                     (''invalid literal for int() with base 10: '' @ repr_str s))
          | Some n \<Rightarrow> Inr n)
     | _ \<Rightarrow> Inl (InterpreterError TypeError
                  ''int() argument must be a string, a bytes-like object or a real number''))"

definition type_checking :: "pyval \<Rightarrow> enforcer \<Rightarrow> pyerror + enforcer" where
  "type_checking severity s =
     (case py_int severity of
        Inl e \<Rightarrow> Inl e
      | Inr k \<Rightarrow>
          (case actions k of
             None \<Rightarrow> Inl (InterpreterError KeyError (str_int k))
           | Some a \<Rightarrow> Inr (s\<lparr>emit := a\<rparr>)))"

subsection \<open>\<open>check_type\<close>\<close>

text \<open>The argument \<open>i\<close>: the default \<open>''\<close> or a position.\<close>

datatype index = NoIndex | Idx nat

definition index_str :: "index \<Rightarrow> string" where
  "index_str i = (case i of NoIndex \<Rightarrow> [] | Idx n \<Rightarrow> str_nat n)"

definition index_bool :: "index \<Rightarrow> bool" where
  "index_bool i = (case i of NoIndex \<Rightarrow> False | Idx n \<Rightarrow> n \<noteq> 0)"

definition item_message :: "string \<Rightarrow> bool \<Rightarrow> pyclass \<Rightarrow> index \<Rightarrow> pyval \<Rightarrow> string" where
  "item_message name many ok i obj =
     ''Items in container class '' @ repr_str name @ '' must derive from '' @
     (if many then ''one of'' else []) @ '' '' @ class_repr ok @ ''. Item '' @
     index_str i @ (if index_bool i then '' '' else []) @ '' is of type '' @
     class_repr (type_of obj) @ ''.''"

text \<open>\<open>self._allowed_types[... if many else 0]\<close>: a tuple cannot be indexed by \<open>...\<close>.\<close>

definition allowed_for_message :: "pyclass list \<Rightarrow> pyerror + pyclass" where
  "allowed_for_message ts =
     (if length ts > 1 then
        Inl (InterpreterError TypeError
               ''tuple indices must be integers or slices, not ellipsis'')
      else (case ts of
              [] \<Rightarrow> Inl (InterpreterError IndexError ''tuple index out of range'')
            | ok # rest \<Rightarrow> Inr ok))"

definition check_type ::
  "enforcer \<Rightarrow> pyval \<Rightarrow> index \<Rightarrow> action option \<Rightarrow> pyerror + enforcer" where
  "check_type s obj i emit_arg =
     (if isinstance obj (allowed_types s) then Inr s
      else
        let em = (case emit_arg of None \<Rightarrow> emit s | Some a \<Rightarrow> a) in
        if em = Echo0 then Inr s
        else
          let many = (length (allowed_types s) > 1) in
          (case allowed_for_message (allowed_types s) of
             Inl e \<Rightarrow> Inl e
           | Inr ok \<Rightarrow>
               (let msg = item_message (class_name s) many ok i obj in
                case em of
                  Raise \<Rightarrow> Inl (ItemTypeError msg)
                | Warn \<Rightarrow> Inr (s\<lparr>warned := warned s @ [msg]\<rparr>)
                | Echo0 \<Rightarrow> Inr s)))"

subsection \<open>\<open>checks_type\<close>\<close>

text \<open>
  Modelled from the spec: \<open>first_true_index\<close> of \<open>recipes.iter\<close> is not in the sources;
  it gives the position of the first true flag, and \<open>None\<close> when there is none.
\<close>

fun first_true_index :: "bool list \<Rightarrow> nat option" where
  "first_true_index [] = None"
| "first_true_index (b # bs) = (if b then Some 0 else map_option Suc (first_true_index bs))"

type_synonym flags = "bool option \<times> bool option \<times> bool option"

definition checks_type_emit :: "flags \<Rightarrow> pyerror + action" where
  "checks_type_emit fl =
     (case fl of (raises, warns, silent) \<Rightarrow>
        let raises' = (if raises = warns \<and> warns = silent \<and> silent = None
                       then Some True else raises) in
        (case first_true_index [raises' = Some True, warns = Some True, silent = Some True] of
           None \<Rightarrow> Inl (InterpreterError TypeError ''unsupported operand type(s) for -'')
         | Some k \<Rightarrow>
             (case actions (1 - int k) of
                None \<Rightarrow> Inl (InterpreterError KeyError (str_int (1 - int k)))
              | Some a \<Rightarrow> Inr a)))"

text \<open>
  The generator object: the flags it was called with, the counter of \<open>enumerate\<close> and
  the items not yet taken from \<open>itr\<close>. Nothing of the body runs before the first
  \<open>next\<close>.
\<close>

datatype gen = Gen (g_flags: flags) (g_index: nat) (g_rest: "pyval list")

datatype gen_step = Stop | Yield pyval gen enforcer | Throw pyerror

definition checks_type :: "pyval list \<Rightarrow> flags \<Rightarrow> gen" where
  "checks_type itr fl = Gen fl 0 itr"

text \<open>One \<open>next\<close> on the generator: the check of one item, then its \<open>yield\<close>.\<close>

definition checks_type_next :: "enforcer \<Rightarrow> gen \<Rightarrow> gen_step" where
  "checks_type_next s g =
     (case checks_type_emit (g_flags g) of
        Inl e \<Rightarrow> Throw e
      | Inr em \<Rightarrow>
          (case g_rest g of
             [] \<Rightarrow> Stop
           | obj # rest \<Rightarrow>
               (case check_type s obj (Idx (g_index g)) (Some em) of
                  Inl e \<Rightarrow> Throw e
                | Inr s' \<Rightarrow> Yield obj (Gen (g_flags g) (Suc (g_index g)) rest) s')))"

subsection \<open>The sequence collaborator\<close>

text \<open>
  \<open>list.extend\<close> on a generator: it takes one item at a time and stores it before it
  asks for the next; an exception of the generator leaves what is stored so far.
\<close>

function list_extend ::
  "enforcer \<Rightarrow> pyval list \<Rightarrow> gen \<Rightarrow> pyerror option \<times> pyval list \<times> enforcer" where
  "list_extend s acc g =
     (case checks_type_next s g of
        Stop \<Rightarrow> (None, acc, s)
      | Throw e \<Rightarrow> (Some e, acc, s)
      | Yield x g' s' \<Rightarrow> list_extend s' (acc @ [x]) g')"
  by pat_completeness auto
termination
proof (relation "measure (\<lambda>(s, acc, g). length (g_rest g))")
  show "wf (measure (\<lambda>(s :: enforcer, acc :: pyval list, g). length (g_rest g)))"
    by simp
next
  fix s :: enforcer and acc :: "pyval list" and g x g' s'
  assume "checks_type_next s g = Yield x g' s'"
  then have "length (g_rest g') < length (g_rest g)"
    by (auto simp: checks_type_next_def split: sum.splits list.splits)
  then show "((s', acc @ [x], g'), (s, acc, g)) \<in> measure (\<lambda>(s, acc, g). length (g_rest g))"
    by simp
qed

subsection \<open>\<open>__init__\<close>, \<open>append\<close>, \<open>extend\<close>\<close>

text \<open>
  \<open>UserList.__init__\<close> sets \<open>self.data = []\<close> and then \<open>self.data = list(initlist)\<close>;
  the list under construction is lost when the generator raises.
\<close>

definition init_TE :: "enforcer \<Rightarrow> pyval list \<Rightarrow> outcome" where
  "init_TE s items =
     (case list_extend s [] (checks_type items (None, None, None)) of
        (None, acc, s') \<Rightarrow> Returns (s'\<lparr>data := acc\<rparr>)
      | (Some e, acc, s') \<Rightarrow> Raises e (s'\<lparr>data := []\<rparr>))"

definition append_TE :: "enforcer \<Rightarrow> pyval \<Rightarrow> outcome" where
  "append_TE s item =
     (case check_type s item (Idx (length (data s))) None of
        Inl e \<Rightarrow> Raises e s
      | Inr s' \<Rightarrow> Returns (s'\<lparr>data := data s' @ [item]\<rparr>))"

definition extend_TE :: "enforcer \<Rightarrow> pyval list \<Rightarrow> outcome" where
  "extend_TE s itr =
     (case list_extend s (data s) (checks_type itr (None, None, None)) of
        (None, acc, s') \<Rightarrow> Returns (s'\<lparr>data := acc\<rparr>)
      | (Some e, acc, s') \<Rightarrow> Raises e (s'\<lparr>data := acc\<rparr>))"

section \<open>Instances and the methods they reach\<close>

text \<open>
  A call \<open>c.append(item)\<close> runs the \<open>append\<close> of the first class of the method resolution
  order of \<open>type(c)\<close> whose \<open>__dict__\<close> has the name; construction \<open>C(items)\<close> runs the
  \<open>__init__\<close> found in the same way. \<open>None\<close> stands for \<open>AttributeError\<close>.
\<close>

definition method_owner :: "pyclass \<Rightarrow> string \<Rightarrow> pyclass option" where
  "method_owner c name = (case mro c of
       None \<Rightarrow> None
     | Some m \<Rightarrow> find (\<lambda>k. name \<in> set (own_names k)) m)"

text \<open>
  A container instance: its class, the class attribute \<open>emit\<close> as the instance reads
  it, the list \<open>self.data\<close> and the messages handed to \<open>warnings.warn\<close> so far.
\<close>

record pyobject =
  inst_class :: pyclass
  inst_emit :: action
  inst_data :: "pyval list"
  inst_warned :: "string list"

datatype result = Done pyobject | Failed pyerror pyobject

text \<open>
  The instance as the methods of \<open>_TypeEnforcer\<close> read it, with \<open>ts\<close> the value of
  \<open>self._allowed_types\<close>, and the instance after such a method.
\<close>

definition self_of :: "pyobject \<Rightarrow> pyclass list \<Rightarrow> enforcer" where
  "self_of ob ts =
     \<lparr>class_name = cname (inst_class ob), allowed_types = ts, emit = inst_emit ob,
      data = inst_data ob, warned = inst_warned ob\<rparr>"

definition put_back :: "pyobject \<Rightarrow> enforcer \<Rightarrow> pyobject" where
  "put_back ob s = ob\<lparr>inst_emit := emit s, inst_data := data s, inst_warned := warned s\<rparr>"

definition as_self :: "pyobject \<Rightarrow> (enforcer \<Rightarrow> outcome) \<Rightarrow> result" where
  "as_self ob body =
     (case lookup_allowed (inst_class ob) of
        None \<Rightarrow> Failed attribute_error ob
      | Some ts \<Rightarrow>
          (case body (self_of ob ts) of
             Returns s \<Rightarrow> Done (put_back ob s)
           | Raises e s \<Rightarrow> Failed e (put_back ob s)))"

text \<open>
  The methods of \<open>collections.UserList\<close>, on an argument that is no \<open>UserList\<close> itself:
  \<open>__init__\<close> does \<open>self.data = list(initlist)\<close>, \<open>append\<close> does \<open>self.data.append(item)\<close>,
  \<open>extend\<close> does \<open>self.data.extend(other)\<close>. None of them calls \<open>super()\<close> and none looks
  at the type of an item.
\<close>

definition UserList_init :: "pyobject \<Rightarrow> pyval list \<Rightarrow> result" where
  "UserList_init ob initlist = Done (ob\<lparr>inst_data := initlist\<rparr>)"

definition UserList_append :: "pyobject \<Rightarrow> pyval \<Rightarrow> result" where
  "UserList_append ob item = Done (ob\<lparr>inst_data := inst_data ob @ [item]\<rparr>)"

definition UserList_extend :: "pyobject \<Rightarrow> pyval list \<Rightarrow> result" where
  "UserList_extend ob other = Done (ob\<lparr>inst_data := inst_data ob @ other\<rparr>)"

definition no_attribute :: "string \<Rightarrow> pyerror" where
  "no_attribute name = InterpreterError AttributeError name"

text \<open>
  The calls on an instance. The method is the one of \<open>_TypeEnforcer\<close> or the one of
  \<open>UserList\<close>, whichever class comes first in the method resolution order; the result is
  \<open>None\<close> when the method belongs to a class whose body is not modelled.
  \<open>call_init ob items\<close> is the construction \<open>C(items)\<close> on the fresh object \<open>ob\<close>.
\<close>

definition call_init :: "pyobject \<Rightarrow> pyval list \<Rightarrow> result option" where
  "call_init ob items =
     (case method_owner (inst_class ob) ''__init__'' of
        None \<Rightarrow> Some (Failed (no_attribute ''__init__'') ob)
      | Some k \<Rightarrow>
          if k = TypeEnforcer then Some (as_self ob (\<lambda>s. init_TE s items))
          else if k = UserList then Some (UserList_init ob items)
          else if k = object_cls then
            Some (Failed (InterpreterError TypeError
                            ''object.__init__() takes exactly one argument'') ob)
          else None)"

definition call_append :: "pyobject \<Rightarrow> pyval \<Rightarrow> result option" where
  "call_append ob item =
     (case method_owner (inst_class ob) ''append'' of
        None \<Rightarrow> Some (Failed (no_attribute ''append'') ob)
      | Some k \<Rightarrow>
          if k = TypeEnforcer then Some (as_self ob (\<lambda>s. append_TE s item))
          else if k = UserList then Some (UserList_append ob item)
          else None)"

definition call_extend :: "pyobject \<Rightarrow> pyval list \<Rightarrow> result option" where
  "call_extend ob itr =
     (case method_owner (inst_class ob) ''extend'' of
        None \<Rightarrow> Some (Failed (no_attribute ''extend'') ob)
      | Some k \<Rightarrow>
          if k = TypeEnforcer then Some (as_self ob (\<lambda>s. extend_TE s itr))
          else if k = UserList then Some (UserList_extend ob itr)
          else None)"

text \<open>
  The class method \<open>type_checking\<close>, called on the class of the instance (or through the
  instance): it sets the class attribute \<open>emit\<close> that the instance reads.
\<close>

definition call_type_checking :: "pyobject \<Rightarrow> pyval \<Rightarrow> result option" where
  "call_type_checking ob severity =
     (case method_owner (inst_class ob) ''type_checking'' of
        None \<Rightarrow> Some (Failed (no_attribute ''type_checking'') ob)
      | Some k \<Rightarrow>
          if k = TypeEnforcer then
            Some (case type_checking severity
                         (self_of ob (case lookup_allowed (inst_class ob) of
                                        None \<Rightarrow> []
                                      | Some ts \<Rightarrow> ts)) of
                    Inl e \<Rightarrow> Failed e ob
                  | Inr s' \<Rightarrow> Done (put_back ob s'))
          else None)"

section \<open>Classes and instances of the usage patterns\<close>

text \<open>The namespace of a class statement with the body \<open>pass\<close>, written in a script.\<close>

definition namespace_items :: "string \<Rightarrow> (string \<times> pyval) list" where
  "namespace_items name = [(''__module__'', VStr ''__main__''), (''__qualname__'', VStr name)]"

definition namespace :: "string \<Rightarrow> pyval" where
  "namespace name = VDict (namespace_items name)"


text \<open>
  The classes that \<open>OfTypes(int)\<close>, \<open>OfTypes(bool)\<close>, \<open>ListOf(int)\<close>,
  \<open>OfTypes(str, bool, float)\<close> and \<open>OfTypes(int, float, str)\<close> return.
\<close>

definition OfTypes_int :: pyclass where
  "OfTypes_int =
     PyClass 100 ''ListOf'' ''abc'' (MFactory OfTypes) [TypeEnforcer] (Some [int_cls])
       [''_allowed_types'']"

definition OfTypes_bool :: pyclass where
  "OfTypes_bool =
     PyClass 101 ''ListOf'' ''abc'' (MFactory OfTypes) [TypeEnforcer] (Some [bool_cls])
       [''_allowed_types'']"

definition ListOf_int :: pyclass where
  "ListOf_int =
     PyClass 102 ''ListOf'' ''abc'' (MFactory ListOf) [TypeEnforcer] (Some [int_cls])
       [''_allowed_types'']"

definition OfTypes_str_bool_float :: pyclass where
  "OfTypes_str_bool_float =
     PyClass 103 ''ListOf'' ''abc'' (MFactory OfTypes) [TypeEnforcer]
       (Some [str_cls, bool_cls, float_cls]) [''_allowed_types'']"

definition OfTypes_int_float_str :: pyclass where
  "OfTypes_int_float_str =
     PyClass 104 ''ListOf'' ''abc'' (MFactory OfTypes) [TypeEnforcer]
       (Some [int_cls, float_cls, str_cls]) [''_allowed_types'']"

text \<open>
  \<open>class Container(UserList, OfTypes(int)): pass\<close>, the same with \<open>bool\<close> and the same
  with \<open>(int, float, str)\<close>: the bases are in the order in which \<open>make_bases\<close> leaves
  them.
\<close>

definition Container_int :: pyclass where
  "Container_int =
     PyClass 200 ''Container'' ''__main__'' (MFactory OfTypes) [OfTypes_int, UserList] None
       [''__module__'', ''__qualname__'']"

definition Container_bool :: pyclass where
  "Container_bool =
     PyClass 201 ''Container'' ''__main__'' (MFactory OfTypes) [OfTypes_bool, UserList] None
       [''__module__'', ''__qualname__'']"

definition Container_mixed :: pyclass where
  "Container_mixed =
     PyClass 203 ''Container'' ''__main__'' (MFactory OfTypes)
       [OfTypes_int_float_str, UserList] None [''__module__'', ''__qualname__'']"

text \<open>
  \<open>class Container(ListOf(int)): pass\<close>, with the bases as \<open>make_bases\<close> returns them
  for this form.
\<close>

definition Container_scratch :: pyclass where
  "Container_scratch =
     PyClass 202 ''Container'' ''__main__'' (MFactory ListOf) [UserList, ListOf_int] None
       [''__module__'', ''__qualname__'']"

text \<open>
  \<open>class X(Sized, ListOf(int)): pass\<close>: the bases that \<open>make_bases\<close> returns for it.
\<close>

definition Sized_bases :: "pyclass list" where
  "Sized_bases = [Sized_cls, UserList, ListOf_int]"

text \<open>
  Instances holding \<open>[1, 2, 3]\<close>: one of the class with the explicit sequence base, one
  of the class made from scratch. The class attribute \<open>emit\<close> is the default.
\<close>

definition explicit123 :: pyobject where
  "explicit123 =
     \<lparr>inst_class = Container_int, inst_emit = Raise,
      inst_data = [VInt 1, VInt 2, VInt 3], inst_warned = []\<rparr>"

definition scratch123 :: pyobject where
  "scratch123 =
     \<lparr>inst_class = Container_scratch, inst_emit = Raise,
      inst_data = [VInt 1, VInt 2, VInt 3], inst_warned = []\<rparr>"

text \<open>A fresh object of each of the two classes, before \<open>__init__\<close>.\<close>

definition explicit_fresh :: pyobject where
  "explicit_fresh =
     \<lparr>inst_class = Container_int, inst_emit = Raise, inst_data = [], inst_warned = []\<rparr>"

definition scratch_fresh :: pyobject where
  "scratch_fresh =
     \<lparr>inst_class = Container_scratch, inst_emit = Raise, inst_data = [], inst_warned = []\<rparr>"

text \<open>An instance of the class restricted to \<open>(int, float, str)\<close>, holding \<open>[1]\<close>.\<close>

definition explicit_mixed1 :: pyobject where
  "explicit_mixed1 =
     \<lparr>inst_class = Container_mixed, inst_emit = Raise, inst_data = [VInt 1],
      inst_warned = []\<rparr>"


definition mixed1 :: enforcer where
  "mixed1 =
     \<lparr>class_name = ''Container'', allowed_types = [int_cls, float_cls, str_cls],
      emit = Raise, data = [VInt 1], warned = []\<rparr>"

text \<open>
  A class restricted to \<open>int\<close> after \<open>type_checking(0)\<close>: the class attribute \<open>emit\<close>
  is \<open>warnings.warn\<close>. No instance data yet.
\<close>

definition warn_ints :: enforcer where
  "warn_ints =
     \<lparr>class_name = ''Container'', allowed_types = [int_cls], emit = Warn,
      data = [], warned = []\<rparr>"

text \<open>The two errors that \<open>__new__\<close> raises for a malformed call of the factory.\<close>

fun is_config_error :: "pyerror \<Rightarrow> bool" where
  "is_config_error (ConfigValueError m) = True"
| "is_config_error (ConfigTypeError m) = True"
| "is_config_error e = False"

section \<open>The usage patterns, run through the factory\<close>

lemma factory_makes_OfTypes_int:
  "factory_call 100 OfTypes [VCls int_cls] = Inr OfTypes_int"
  by code_simp

lemma factory_makes_ListOf_int:
  "factory_call 102 ListOf [VCls int_cls] = Inr ListOf_int"
  by code_simp

lemma factory_makes_OfTypes_str_bool_float:
  "factory_call 103 OfTypes [VCls str_cls, VCls bool_cls, VCls float_cls] =
   Inr OfTypes_str_bool_float"
  by code_simp

lemma factory_makes_OfTypes_int_float_str:
  "factory_call 104 OfTypes [VCls int_cls, VCls float_cls, VCls str_cls] =
   Inr OfTypes_int_float_str"
  by code_simp

lemma class_statement_makes_Container_int:
  "factory_call 200 OfTypes
     [VStr ''Container'', VTuple [VCls UserList, VCls OfTypes_int], namespace ''Container''] =
   Inr Container_int"
  by code_simp

lemma class_statement_makes_Container_mixed:
  "factory_call 203 OfTypes
     [VStr ''Container'', VTuple [VCls UserList, VCls OfTypes_int_float_str],
      namespace ''Container''] =
   Inr Container_mixed"
  by code_simp

lemma mro_Container_int:
  "map_option (map cname) (mro Container_int) =
   Some [''Container'', ''ListOf'', ''_TypeEnforcer'', ''UserList'', ''MutableSequence'',
         ''Sequence'', ''Reversible'', ''Collection'', ''Sized'', ''Iterable'',
         ''Container'', ''object'']"
  by code_simp

text \<open>
  A second call of \<open>OfTypes(int)\<close> returns another class object:
  \<open>class Y(Container, OfTypes(int))\<close> is built.
\<close>

lemma second_enforcer_is_another_class:
  "factory_call 105 OfTypes [VCls int_cls] \<noteq> Inr OfTypes_int \<and>
   map_sum id (map cid \<circ> cbases)
     (case factory_call 105 OfTypes [VCls int_cls] of
        Inl e \<Rightarrow> Inl e
      | Inr E \<Rightarrow>
          factory_call 300 OfTypes
            [VStr ''Y'', VTuple [VCls Container_int, VCls E], namespace ''Y'']) =
   Inr [105, 200]"
  by code_simp

section \<open>Composition of allow-lists\<close>

lemma narrows_first_only:
  "narrows name allowed requested =
     (case requested of
        [] \<Rightarrow> Inr ()
      | new # rest \<Rightarrow>
          if issubclass new allowed then Inr ()
          else Inl (CompositionTypeError (incompatible_message new allowed name)))"
  by (cases requested) simp_all

lemma check_each_ok_iff:
  "check_each name requested previous = Inr () \<longleftrightarrow>
     requested = [] \<or> list_all (issubclass (hd requested)) previous"
  by (induction previous) (auto simp: narrows_first_only split: list.splits sum.splits)

text \<open>
  What the check accepts: the first requested type alone has to be a subclass of every
  inherited type.
\<close>

lemma check_allowed_types_ok_iff:
  "check_allowed_types name requested previous = Inr () \<longleftrightarrow>
     requested = [] \<or> list_all (issubclass (hd requested)) previous"
  by (cases previous)
     (simp_all add: check_allowed_types_def check_each_ok_iff del: check_each.simps)

lemma narrowing_accepted:
  "issubclass T1 T0 \<Longrightarrow> check_allowed_types name [T1] [T0] = Inr ()"
  by (simp add: check_allowed_types_def)

lemma widening_refused:
  "\<not> issubclass T0 T1 \<Longrightarrow>
   check_allowed_types name [T0] [T1] =
     Inl (CompositionTypeError (incompatible_message T0 T1 name))"
  by (simp add: check_allowed_types_def)

text \<open>
  \<open>class B(Container, OfTypes(bool))\<close> on the container of \<open>int\<close> is built; the reverse,
  \<open>OfTypes(int)\<close> on a container of \<open>bool\<close>, is refused.
\<close>

lemma derive_bool_from_int:
  "make_bases OfTypes ''B'' [Container_int, OfTypes_bool] = Inr [OfTypes_bool, Container_int]"
  by code_simp

lemma derive_int_from_bool:
  "make_bases OfTypes ''B'' [Container_bool, OfTypes_int] =
     Inl (CompositionTypeError (incompatible_message int_cls bool_cls ''B''))"
  by code_simp

text \<open>
  Claim C1. The narrowing rule says that a new container class is built when, for
  every inherited type, some requested type is a subclass of it. The code looks at the
  first requested type only: \<open>class B(Container, OfTypes(str, bool, float))\<close> on the
  container of \<open>int\<close> is refused with the pair \<open>(str, int)\<close>, although the requested
  \<open>bool\<close> is a subclass of the inherited \<open>int\<close>.
\<close>

theorem C1_first_requested_type_decides:
  "issubclass bool_cls int_cls \<and>
   \<not> issubclass str_cls int_cls \<and>
   check_allowed_types ''B'' [str_cls, bool_cls, float_cls] [int_cls] =
     Inl (CompositionTypeError (incompatible_message str_cls int_cls ''B'')) \<and>
   make_bases OfTypes ''B'' [Container_int, OfTypes_str_bool_float] =
     Inl (CompositionTypeError (incompatible_message str_cls int_cls ''B''))"
  by code_simp

section \<open>The order of the bases\<close>

text \<open>
  \<open>class Container(UserList, OfTypes(int))\<close>: the enforcer is moved in front of
  \<open>UserList\<close>.
\<close>

lemma explicit_form_reorders:
  "make_bases OfTypes ''Container'' [UserList, OfTypes_int] = Inr [OfTypes_int, UserList]"
  by code_simp

text \<open>
  Claim C2. The type-enforcing base is to precede the sequence base in the final
  tuple, for the form with an explicit sequence base and for the form that injects
  \<open>UserList\<close>. For \<open>class Container(ListOf(int))\<close> the code returns \<open>UserList\<close> in
  front of the enforcer: the injection is at \<open>idx_enf\<close>, and the reordering is skipped
  because \<open>idx_cnt\<close> is still \<open>None\<close>.
\<close>

theorem C2_injected_UserList_precedes_enforcer:
  "make_bases ListOf ''Container'' [ListOf_int] = Inr [UserList, ListOf_int] \<and>
   issubclass UserList Container_cls \<and> \<not> issubclass UserList TypeEnforcer \<and>
   issubclass ListOf_int TypeEnforcer \<and> \<not> issubclass ListOf_int Container_cls"
  by code_simp

text \<open>
  The class built from these bases finds the methods of \<open>UserList\<close> (\<open>__init__\<close>,
  \<open>append\<close>, \<open>extend\<close>) before those of \<open>_TypeEnforcer\<close>; the class with the explicit
  sequence base finds those of \<open>_TypeEnforcer\<close>.
\<close>

lemma class_statement_makes_Container_scratch:
  "factory_call 202 ListOf
     [VStr ''Container'', VTuple [VCls ListOf_int], namespace ''Container''] =
   Inr Container_scratch"
  by code_simp

lemma mro_Container_scratch:
  "map_option (map cname) (mro Container_scratch) =
   Some [''Container'', ''UserList'', ''MutableSequence'', ''Sequence'', ''Reversible'',
         ''Collection'', ''Sized'', ''Iterable'', ''Container'', ''ListOf'',
         ''_TypeEnforcer'', ''object'']"
  by code_simp

lemma owners_Container_scratch:
  "method_owner Container_scratch ''__init__'' = Some UserList \<and>
   method_owner Container_scratch ''append'' = Some UserList \<and>
   method_owner Container_scratch ''extend'' = Some UserList \<and>
   method_owner Container_scratch ''type_checking'' = Some TypeEnforcer"
  by code_simp



lemma allowed_Container_scratch: "lookup_allowed Container_scratch = Some [int_cls]"
  by code_simp

section \<open>Checks on the items\<close>

lemma default_flags_raise: "checks_type_emit (None, None, None) = Inr Raise"
  by (simp add: checks_type_emit_def actions_def)

lemma check_type_conforming:
  "isinstance obj (allowed_types s) \<Longrightarrow> check_type s obj i em = Inr s"
  by (simp add: check_type_def)


lemma check_type_raise_single:
  "\<not> isinstance obj (allowed_types s) \<Longrightarrow> allowed_types s = [T] \<Longrightarrow>
   check_type s obj i (Some Raise) =
     Inl (ItemTypeError (item_message (class_name s) False T i obj))"
  by (simp add: check_type_def allowed_for_message_def)

lemma check_type_raise_TypeError:
  "check_type s obj i (Some Raise) = Inl e \<Longrightarrow> allowed_types s \<noteq> [] \<Longrightarrow>
   exc_class_of e = TypeError"
  by (auto simp: check_type_def allowed_for_message_def Let_def
      split: if_splits list.splits)

text \<open>The generator and \<open>list.extend\<close> on items that all conform: all are stored.\<close>

lemma list_extend_conforming:
  "list_all (\<lambda>x. isinstance x (allowed_types s)) xs \<Longrightarrow>
   list_extend s acc (Gen (None, None, None) i xs) = (None, acc @ xs, s)"
proof (induction xs arbitrary: acc i)
  case Nil
  show ?case
    by (subst list_extend.simps) (simp add: checks_type_next_def default_flags_raise)
next
  case (Cons x xs)
  from Cons.prems have x: "isinstance x (allowed_types s)"
    and xs: "list_all (\<lambda>x. isinstance x (allowed_types s)) xs"
    by simp_all
  have "list_extend s acc (Gen (None, None, None) i (x # xs)) =
        list_extend s (acc @ [x]) (Gen (None, None, None) (Suc i) xs)"
    by (subst list_extend.simps)
       (simp add: checks_type_next_def default_flags_raise check_type_conforming [OF x])
  with Cons.IH [OF xs] show ?case by simp
qed

text \<open>
  The generator and \<open>list.extend\<close> on items of which one does not conform: the items in
  front of it are stored, then the error of its check comes out.
\<close>

lemma list_extend_rejects:
  assumes "list_all (\<lambda>x. isinstance x (allowed_types s)) pre"
    and "check_type s bad (Idx (i + length pre)) (Some Raise) = Inl e"
  shows "list_extend s acc (Gen (None, None, None) i (pre @ bad # rest)) =
           (Some e, acc @ pre, s)"
  using assms
proof (induction pre arbitrary: acc i)
  case Nil
  then show ?case
    by (subst list_extend.simps) (simp add: checks_type_next_def default_flags_raise)
next
  case (Cons x pre)
  from Cons.prems have x: "isinstance x (allowed_types s)"
    and pre: "list_all (\<lambda>x. isinstance x (allowed_types s)) pre"
    and bad: "check_type s bad (Idx (Suc i + length pre)) (Some Raise) = Inl e"
    by simp_all
  have "list_extend s acc (Gen (None, None, None) i ((x # pre) @ bad # rest)) =
        list_extend s (acc @ [x]) (Gen (None, None, None) (Suc i) (pre @ bad # rest))"
    by (subst list_extend.simps)
       (simp add: checks_type_next_def default_flags_raise check_type_conforming [OF x])
  with Cons.IH [OF pre bad] show ?case by simp
qed



section \<open>The methods of \<open>_TypeEnforcer\<close>\<close>

text \<open>
  \<open>_TypeEnforcer.append\<close> with one allowed type \<open>T\<close> and the class action raise: an item
  that is no instance of \<open>T\<close> raises the item-type error, nothing is stored.
\<close>

lemma append_TE_rejects:
  assumes "allowed_types s = [T]" and "\<not> isinstance item [T]" and "emit s = Raise"
  shows "append_TE s item =
           Raises (ItemTypeError
                     (item_message (class_name s) False T (Idx (length (data s))) item)) s"
  using assms by (simp add: append_TE_def check_type_def allowed_for_message_def)




text \<open>
  \<open>_TypeEnforcer.extend\<close> and \<open>_TypeEnforcer.__init__\<close>: the generator is called without
  flags, so the items are checked under the raise action.
\<close>

lemma extend_TE_conforming:
  assumes "list_all (\<lambda>x. isinstance x (allowed_types s)) items"
  shows "extend_TE s items = Returns (s\<lparr>data := data s @ items\<rparr>)"
proof -
  from assms have "list_extend s (data s) (Gen (None, None, None) 0 items) =
      (None, data s @ items, s)"
    by (rule list_extend_conforming)
  then show ?thesis
    by (simp add: extend_TE_def checks_type_def del: list_extend.simps)
qed

lemma extend_TE_rejects:
  assumes "list_all (\<lambda>x. isinstance x (allowed_types s)) pre"
    and "check_type s bad (Idx (length pre)) (Some Raise) = Inl e"
  shows "extend_TE s (pre @ bad # rest) = Raises e (s\<lparr>data := data s @ pre\<rparr>)"
proof -
  from assms have "list_extend s (data s) (Gen (None, None, None) 0 (pre @ bad # rest)) =
      (Some e, data s @ pre, s)"
    by (intro list_extend_rejects) simp_all
  then show ?thesis
    by (simp add: extend_TE_def checks_type_def del: list_extend.simps)
qed



section \<open>The slip in the message for several allowed types\<close>

text \<open>
  Claim C9. On a class that allows more than one type, a failing check under the
  warn action is to build the diagnostic, emit it as a warning and let the item be
  stored. The code indexes the tuple of allowed types with \<open>...\<close> when it builds the
  message: on the container of \<open>(int, float, str)\<close> after \<open>type_checking(0)\<close>,
  \<open>append(None)\<close> raises the \<open>TypeError\<close> of that indexing; no warning is emitted and
  the item is not stored.
\<close>

theorem C9_many_types_warn_raises_on_ellipsis:
  "type_checking (VInt 0) mixed1 = Inr (mixed1\<lparr>emit := Warn\<rparr>) \<and>
   \<not> isinstance VNone (allowed_types mixed1) \<and>
   append_TE (mixed1\<lparr>emit := Warn\<rparr>) VNone =
     Raises (InterpreterError TypeError
               ''tuple indices must be integers or slices, not ellipsis'')
            (mixed1\<lparr>emit := Warn\<rparr>)"
  by code_simp

text \<open>With one allowed type the same call warns and stores.\<close>

lemma one_type_warn_stores:
  "append_TE warn_ints (VStr ''x'') =
     Returns (warn_ints\<lparr>data := [VStr ''x''],
                warned := [item_message ''Container'' False int_cls (Idx 0) (VStr ''x'')]\<rparr>)"
  by code_simp

text \<open>
  The same on the instance of the class with the explicit sequence base:
  \<open>Container.type_checking(0)\<close>, then \<open>append(None)\<close>.
\<close>

lemma explicit_mixed_warn_raises_on_ellipsis:
  "call_type_checking explicit_mixed1 (VInt 0) =
     Some (Done (explicit_mixed1\<lparr>inst_emit := Warn\<rparr>)) \<and>
   method_owner Container_mixed ''append'' = Some TypeEnforcer \<and>
   call_append (explicit_mixed1\<lparr>inst_emit := Warn\<rparr>) VNone =
     Some (Failed (InterpreterError TypeError
                     ''tuple indices must be integers or slices, not ellipsis'')
             (explicit_mixed1\<lparr>inst_emit := Warn\<rparr>))"
  by code_simp

section \<open>Calls on instances\<close>

text \<open>A class that reaches a method of \<open>_TypeEnforcer\<close> has the attribute \<open>_allowed_types\<close>.\<close>

lemma find_Some_member: "find P xs = Some x \<Longrightarrow> x \<in> set xs \<and> P x"
  by (induction xs) (auto split: if_splits)

lemma owner_has_allowed_types:
  assumes "method_owner c name = Some TypeEnforcer"
  shows "\<exists>ts. lookup_allowed c = Some ts"
proof -
  from assms obtain m where m: "mro c = Some m" and "TypeEnforcer \<in> set m"
    by (auto simp: method_owner_def split: option.splits dest: find_Some_member)
  then have "find (\<lambda>k. own_allowed k \<noteq> None) m \<noteq> None"
    by (auto simp: find_None_iff TypeEnforcer_def)
  then obtain k where k: "find (\<lambda>k. own_allowed k \<noteq> None) m = Some k"
    by blast
  then have "own_allowed k \<noteq> None"
    by (blast dest: find_Some_member)
  with m k show ?thesis
    by (auto simp: lookup_allowed_def)
qed

lemma put_back_self:
  "put_back ob (self_of ob ts\<lparr>data := d\<rparr>) = ob\<lparr>inst_data := d\<rparr>"
  "put_back ob (self_of ob ts\<lparr>emit := a\<rparr>) = ob\<lparr>inst_emit := a\<rparr>"
  "put_back ob (self_of ob ts\<lparr>data := d, warned := w\<rparr>) = ob\<lparr>inst_data := d, inst_warned := w\<rparr>"
  "put_back ob (self_of ob ts) = ob"
  by (simp_all add: put_back_def self_of_def)

lemma self_of_fields:
  "class_name (self_of ob ts) = cname (inst_class ob)"
  "allowed_types (self_of ob ts) = ts"
  "emit (self_of ob ts) = inst_emit ob"
  "data (self_of ob ts) = inst_data ob"
  "warned (self_of ob ts) = inst_warned ob"
  by (simp_all add: self_of_def)

subsection \<open>\<open>append\<close>\<close>

text \<open>
  On a class that reaches \<open>_TypeEnforcer.append\<close>, with one allowed type \<open>T\<close> and the
  class action raise, \<open>append\<close> of an item that is no instance of \<open>T\<close> raises the
  item-type error and leaves the instance as it was.
\<close>

lemma call_append_rejects:
  assumes "method_owner (inst_class ob) ''append'' = Some TypeEnforcer"
    and "lookup_allowed (inst_class ob) = Some [T]"
    and "\<not> isinstance item [T]" and "inst_emit ob = Raise"
  shows "call_append ob item =
           Some (Failed (ItemTypeError
                           (item_message (cname (inst_class ob)) False T
                              (Idx (length (inst_data ob))) item)) ob)"
proof -
  have "append_TE (self_of ob [T]) item =
      Raises (ItemTypeError
                (item_message (cname (inst_class ob)) False T
                   (Idx (length (inst_data ob))) item)) (self_of ob [T])"
    using append_TE_rejects [of "self_of ob [T]" T item] assms(3,4)
    by (simp add: self_of_fields)
  with assms(1,2) show ?thesis
    by (simp add: call_append_def as_self_def put_back_self)
qed

lemma explicit_append_rejects:
  "call_init explicit_fresh [VInt 1, VInt 2, VInt 3] = Some (Done explicit123) \<and>
   call_append explicit123 (VStr ''x'') =
     Some (Failed (ItemTypeError
                     (item_message ''Container'' False int_cls (Idx 3) (VStr ''x'')))
             explicit123)"
  by code_simp

text \<open>
  Claim C3. On a container restricted to one type \<open>T\<close> that holds conforming items,
  \<open>append\<close> of an item that is no instance of \<open>T\<close> is to raise the item-type error under
  the default action and to leave the container unchanged. The container of the
  claim's scenario is an instance of \<open>class Container(ListOf(int))\<close> made from
  \<open>[1, 2, 3]\<close>: its \<open>append\<close> is the one of \<open>UserList\<close>, so \<open>append('x')\<close> returns and the
  container holds four items.
\<close>

theorem C3_from_scratch_append_is_unchecked:
  "factory_call 202 ListOf
     [VStr ''Container'', VTuple [VCls ListOf_int], namespace ''Container''] =
     Inr Container_scratch \<and>
   lookup_allowed Container_scratch = Some [int_cls] \<and>
   call_init scratch_fresh [VInt 1, VInt 2, VInt 3] = Some (Done scratch123) \<and>
   inst_emit scratch123 = Raise \<and>
   \<not> isinstance (VStr ''x'') [int_cls] \<and>
   call_append scratch123 (VStr ''x'') =
     Some (Done (scratch123\<lparr>inst_data := [VInt 1, VInt 2, VInt 3, VStr ''x'']\<rparr>))"
  by code_simp

subsection \<open>\<open>type_checking\<close>\<close>




text \<open>
  On the class made from scratch \<open>type_checking(0)\<close> sets the attribute, and \<open>append\<close>,
  which is the one of \<open>UserList\<close>, emits nothing.
\<close>

lemma from_scratch_warn_emits_nothing:
  "call_type_checking scratch123 (VInt 0) = Some (Done (scratch123\<lparr>inst_emit := Warn\<rparr>)) \<and>
   call_append (scratch123\<lparr>inst_emit := Warn\<rparr>) (VStr ''x'') =
     Some (Done (scratch123\<lparr>inst_emit := Warn,
                   inst_data := [VInt 1, VInt 2, VInt 3, VStr ''x'']\<rparr>))"
  by code_simp

subsection \<open>\<open>extend\<close>\<close>

text \<open>
  On a class that reaches \<open>_TypeEnforcer.extend\<close>, items are checked and stored one by
  one: items that all conform are all stored; at the first item that does not conform
  the call aborts with the error of its check under the raise action, and the items in
  front of it stay stored. With one allowed type the error is the item-type error.
\<close>

lemma call_extend_conforming:
  assumes "method_owner (inst_class ob) ''extend'' = Some TypeEnforcer"
    and "lookup_allowed (inst_class ob) = Some ts"
    and "list_all (\<lambda>x. isinstance x ts) items"
  shows "call_extend ob items = Some (Done (ob\<lparr>inst_data := inst_data ob @ items\<rparr>))"
proof -
  let ?s = "self_of ob ts"
  from assms(3) have "extend_TE ?s items = Returns (?s\<lparr>data := data ?s @ items\<rparr>)"
    by (intro extend_TE_conforming) (simp add: self_of_fields)
  with assms(1,2) show ?thesis
    by (simp add: call_extend_def as_self_def put_back_self self_of_fields)
qed

lemma call_extend_rejects:
  assumes "method_owner (inst_class ob) ''extend'' = Some TypeEnforcer"
    and "lookup_allowed (inst_class ob) = Some [T]"
    and "list_all (\<lambda>x. isinstance x [T]) pre" and "\<not> isinstance bad [T]"
  shows "call_extend ob (pre @ bad # rest) =
           Some (Failed (ItemTypeError
                           (item_message (cname (inst_class ob)) False T
                              (Idx (length pre)) bad))
                   (ob\<lparr>inst_data := inst_data ob @ pre\<rparr>))"
proof -
  let ?s = "self_of ob [T]"
  let ?e = "ItemTypeError (item_message (cname (inst_class ob)) False T (Idx (length pre)) bad)"
  have "check_type ?s bad (Idx (length pre)) (Some Raise) = Inl ?e"
    using check_type_raise_single [of bad ?s T "Idx (length pre)"] assms(4)
    by (simp add: self_of_fields)
  with assms(3) have "extend_TE ?s (pre @ bad # rest) = Raises ?e (?s\<lparr>data := data ?s @ pre\<rparr>)"
    by (intro extend_TE_rejects) (simp_all add: self_of_fields)
  with assms(1,2) show ?thesis
    by (simp add: call_extend_def as_self_def put_back_self self_of_fields)
qed

text \<open>
  Claim C7. \<open>extend\<close> is to check and store item by item and, at the first item that
  does not conform, to abort with an item-type error while the conforming items in
  front of it stay stored. On the instance of \<open>class Container(ListOf(int))\<close> \<open>extend\<close>
  is the one of \<open>UserList\<close>: \<open>extend([4, 'x', 5])\<close> returns and stores all three items. On
  the instance of the class with the explicit sequence base and the types
  \<open>(int, float, str)\<close>, \<open>extend([4, None, 5])\<close> stores 4 and aborts, but with the
  \<open>TypeError\<close> of the indexing by \<open>...\<close>, not with the item-type error.
\<close>

theorem C7_extend_unchecked_from_scratch:
  "lookup_allowed Container_scratch = Some [int_cls] \<and>
   \<not> isinstance (VStr ''x'') [int_cls] \<and>
   call_extend scratch123 [VInt 4, VStr ''x'', VInt 5] =
     Some (Done (scratch123\<lparr>inst_data :=
                   [VInt 1, VInt 2, VInt 3, VInt 4, VStr ''x'', VInt 5]\<rparr>)) \<and>
   lookup_allowed Container_mixed = Some [int_cls, float_cls, str_cls] \<and>
   \<not> isinstance VNone [int_cls, float_cls, str_cls] \<and>
   call_extend explicit_mixed1 [VInt 4, VNone, VInt 5] =
     Some (Failed (InterpreterError TypeError
                     ''tuple indices must be integers or slices, not ellipsis'')
             (explicit_mixed1\<lparr>inst_data := [VInt 1, VInt 4]\<rparr>))"
  by code_simp

text \<open>On the class with the explicit sequence base and one type the claim holds.\<close>

lemma explicit_extend_rejects:
  "call_extend explicit123 [VInt 4, VStr ''x'', VInt 5] =
     Some (Failed (ItemTypeError
                     (item_message ''Container'' False int_cls (Idx 1) (VStr ''x'')))
             (explicit123\<lparr>inst_data := [VInt 1, VInt 2, VInt 3, VInt 4]\<rparr>))"
  by code_simp

subsection \<open>Construction\<close>




text \<open>On the class made from scratch construction is \<open>UserList.__init__\<close>: nothing is checked.\<close>

lemma from_scratch_construction_is_unchecked:
  "call_init scratch_fresh [VInt 1, VStr ''x''] =
     Some (Done (scratch_fresh\<lparr>inst_data := [VInt 1, VStr ''x'']\<rparr>))"
  by code_simp

section \<open>Calls of the factory\<close>

lemma no_arguments_IndexError:
  "OfTypes_new cls [] = Inl (InterpreterError IndexError ''tuple index out of range'')"
  by (simp add: OfTypes_new_def)


lemma int_is_a_class:
  "isinstance (VCls int_cls) [type_cls] \<and> \<not> isinstance (VCls int_cls) [str_cls]"
  by code_simp

lemma five_is_no_class: "\<not> isinstance (VInt 5) [type_cls]"
  by code_simp

lemma strings_are_str: "isinstance (VStr s) [str_cls]"
  by (simp add: isinstance_def issubclass_def str_cls_def Container_cls_def)

text \<open>
  Claim C4, as the spec states it: any argument that is an instance and not a class
  makes the factory raise a configuration error. When the first argument is a string
  the call is the internal one of a class statement: the three arguments
  \<open>'Container'\<close>, \<open>(UserList, OfTypes(int))\<close> and the namespace are all instances, and
  the class \<open>Container\<close> is built.
\<close>

theorem C4_string_first_counterexample:
  "\<not> isinstance (VStr ''Container'') [type_cls] \<and>
   \<not> isinstance (VTuple [VCls UserList, VCls OfTypes_int]) [type_cls] \<and>
   \<not> isinstance (namespace ''Container'') [type_cls] \<and>
   OfTypes_new OfTypes
     [VStr ''Container'', VTuple [VCls UserList, VCls OfTypes_int], namespace ''Container''] =
     Inr (TypeNew OfTypes (VStr ''Container'') [OfTypes_int, UserList]
            (namespace ''Container'')) \<and>
   created_class 200
     (TypeNew OfTypes (VStr ''Container'') [OfTypes_int, UserList] (namespace ''Container'')) =
     Inr Container_int"
  by code_simp

text \<open>
  Claim C4, amended. When the factory is invoked with at least one argument, the first
  of which is not a string, and some argument is not a class, it raises the
  configuration error \<open>Arguments to ... constructor should be classes\<close> (a \<open>TypeError\<close>)
  and builds no class.
\<close>

theorem C4_non_class_argument_refused:
  assumes "\<not> isinstance a0 [str_cls]"
    and "list_ex (\<lambda>kls. \<not> isinstance kls [type_cls]) (a0 # rest)"
  shows "OfTypes_new cls (a0 # rest) = Inl (ConfigTypeError (not_classes_message cls))"
  using assms by (simp add: OfTypes_new_def)

theorem C4_non_class_argument_witness:
  "\<not> isinstance (VCls int_cls) [str_cls] \<and>
   list_ex (\<lambda>kls. \<not> isinstance kls [type_cls]) [VCls int_cls, VInt 5] \<and>
   OfTypes_new OfTypes [VCls int_cls, VInt 5] =
     Inl (ConfigTypeError (not_classes_message OfTypes))"
proof -
  have a: "\<not> isinstance (VCls int_cls) [str_cls]"
    using int_is_a_class by simp
  have b: "list_ex (\<lambda>kls. \<not> isinstance kls [type_cls]) [VCls int_cls, VInt 5]"
    using five_is_no_class by simp
  from C4_non_class_argument_refused [OF a b] a b show ?thesis
    by simp
qed

subsection \<open>The errors of the internal path\<close>

lemma extend_previous_error:
  "extend_previous cls bbs prev = Inl e \<Longrightarrow> e = attribute_error"
  by (induction bbs arbitrary: prev) (auto split: if_splits option.splits)

lemma scan_base_error:
  "scan_base cls i base st = Inl e \<Longrightarrow> e = attribute_error"
  by (auto simp: scan_base_def Let_def split: prod.splits if_splits option.splits sum.splits
      dest: extend_previous_error)

lemma scan_bases_error:
  "scan_bases cls i bases st = Inl e \<Longrightarrow> e = attribute_error"
  by (induction bases arbitrary: i st) (auto split: sum.splits dest: scan_base_error)

lemma get_allowed_types_error:
  "get_allowed_types cls bases = Inl e \<Longrightarrow> \<not> is_config_error e"
  by (auto simp: get_allowed_types_def attribute_error_def
      split: sum.splits prod.splits option.splits dest: scan_bases_error)

lemma check_each_error:
  "check_each name requested previous = Inl e \<Longrightarrow> \<not> is_config_error e"
  by (induction previous)
     (auto simp: narrows_first_only split: sum.splits list.splits if_splits)

lemma check_allowed_types_error:
  "check_allowed_types name requested previous = Inl e \<Longrightarrow> \<not> is_config_error e"
  by (auto simp: check_allowed_types_def split: if_splits dest: check_each_error)

lemma pop_insert_error:
  "pop_insert ic ie bs = Inl e \<Longrightarrow> \<not> is_config_error e"
  by (auto simp: pop_insert_def Let_def split: if_splits)

lemma make_bases_error:
  "make_bases cls name bases = Inl e \<Longrightarrow> \<not> is_config_error e"
  by (auto simp: make_bases_def
      split: sum.splits prod.splits if_splits option.splits
      dest: get_allowed_types_error check_allowed_types_error pop_insert_error)

lemma classes_of_bases_error:
  "classes_of_bases v = Inl e \<Longrightarrow> \<not> is_config_error e"
  by (auto simp: classes_of_bases_def not_a_class_def not_iterable_def
      split: pyval.splits if_splits)

lemma classes_of_bases_tuple:
  "classes_of_bases (VTuple (map VCls bases)) = Inr bases"
  by (simp add: classes_of_bases_def the_class_def list_all_iff comp_def)

text \<open>
  Claim C10. A call of the factory whose first argument is a string takes the internal
  path of class creation and none of the checks of the arguments: with the string as
  its only argument the call fails in the unpacking of \<open>name, bases, attrs\<close>; with
  three arguments it is \<open>make_bases\<close> and the class construction; whatever the other
  arguments are, neither of the two configuration errors is raised.
\<close>

theorem C10_string_first_argument_skips_checks:
  assumes "isinstance a0 [str_cls]"
  shows "OfTypes_new cls [a0] = Inl (unpack_error 1) \<and>
         OfTypes_new cls [a0, VTuple (map VCls bases), attrs] =
           map_sum id (\<lambda>bs. TypeNew cls a0 bs attrs) (make_bases cls (str_text a0) bases) \<and>
         (\<forall>e. OfTypes_new cls (a0 # rest) = Inl e \<longrightarrow> \<not> is_config_error e)"
proof (intro conjI allI impI)
  from assms show "OfTypes_new cls [a0] = Inl (unpack_error 1)"
    by (simp add: OfTypes_new_def)
next
  from assms show "OfTypes_new cls [a0, VTuple (map VCls bases), attrs] =
      map_sum id (\<lambda>bs. TypeNew cls a0 bs attrs) (make_bases cls (str_text a0) bases)"
    by (simp add: OfTypes_new_def classes_of_bases_tuple split: sum.splits)
next
  fix e
  assume "OfTypes_new cls (a0 # rest) = Inl e"
  with assms show "\<not> is_config_error e"
    by (auto simp: OfTypes_new_def unpack_error_def
        split: list.splits sum.splits
        dest: make_bases_error classes_of_bases_error)
qed

theorem C10_string_first_argument_witness:
  "isinstance (VStr ''abc'') [str_cls] \<and>
   OfTypes_new OfTypes [VStr ''abc''] = Inl (unpack_error 1) \<and>
   unpack_error 1 =
     InterpreterError ValueError ''not enough values to unpack (expected 3, got 1)'' \<and>
   \<not> is_config_error (unpack_error 1)"
proof -
  have a: "isinstance (VStr ''abc'') [str_cls]"
    by (rule strings_are_str)
  have u: "unpack_error 1 =
      InterpreterError ValueError ''not enough values to unpack (expected 3, got 1)''"
    by code_simp
  from C10_string_first_argument_skips_checks [OF a, of OfTypes "[]" VNone "[]"] a u
  show ?thesis
    by auto
qed

section \<open>Bases without a container\<close>







subsection \<open>The canonical declaration \<open>class C(ListOf(T1, ..., Tn))\<close>\<close>














end
